theory Spec2Isabelle
  imports Main "HOL-Library.Sublist" "HOL-Library.Multiset" "HOL-Library.List_Lexorder"
    "HOL-Library.Char_ord" "HOL-Library.Word"
begin

unbundle bit_operations_syntax

section \<open>Python strings\<close>

text \<open>
  A Python \<open>str\<close> is modelled as a \<open>string\<close> whose characters are the code points
  below 256.  \<open>str.isspace\<close> holds on exactly twelve of them: 0x09..0x0d, 0x1c..0x20,
  0x85 and 0xa0.
\<close>

definition py_isspace :: "char \<Rightarrow> bool" where
  "py_isspace c =
     (let n = (of_char c :: nat)
      in (9 \<le> n \<and> n \<le> 13) \<or> (28 \<le> n \<and> n \<le> 32) \<or> n = 133 \<or> n = 160)"

text \<open>\<open>s.strip()\<close>: whitespace removed at both ends.\<close>

definition py_strip :: "string \<Rightarrow> string" where
  "py_strip s = rev (dropWhile py_isspace (rev (dropWhile py_isspace s)))"

text \<open>
  \<open>s.split(c)\<close> for a separator of one character.  The result is never the empty list
  (\<open>py_split_ne\<close> below), so the first alternative of the \<open>case\<close> is never taken.
\<close>

fun py_split :: "char \<Rightarrow> string \<Rightarrow> string list" where
  "py_split c [] = [[]]"
| "py_split c (x # xs) =
     (if x = c then [] # py_split c xs
      else (case py_split c xs of [] \<Rightarrow> [[x]] | p # ps \<Rightarrow> (x # p) # ps))"

text \<open>\<open>sep.join(parts)\<close>.\<close>

fun py_join :: "string \<Rightarrow> string list \<Rightarrow> string" where
  "py_join sep [] = []"
| "py_join sep [p] = p"
| "py_join sep (p # q # ps) = p @ sep @ py_join sep (q # ps)"

section \<open>Value cleaning (scripts/ingest.py)\<close>

text \<open>
  \<^verbatim>\<open>
  def clean_display_value(val: str) -> str:
      if not val: return "N/A"
      parts = val.split(',')
      cleaned = [p.strip() for p in parts if '/' not in p]
      return ", ".join(cleaned) if cleaned else val
  \<close>
\<close>

definition clean_display_value :: "string \<Rightarrow> string" where
  "clean_display_value val =
     (if val = [] then ''N/A''
      else
        let parts = py_split CHR '','' val;
            cleaned = map py_strip (filter (\<lambda>p. CHR ''/'' \<notin> set p) parts)
        in if cleaned \<noteq> [] then py_join '', '' cleaned else val)"

section \<open>JSON values and the dynamic operations of Python on them\<close>

text \<open>
  What \<open>json.loads\<close> returns: \<open>None\<close>, a \<open>bool\<close>, an \<open>int\<close>, a \<open>str\<close>, a
  \<open>list\<close> or a \<open>dict\<close> with string keys.  A \<open>dict\<close> keeps its insertion order and
  has no key twice (\<open>wf_json\<close> below); it is the association list of its items.
  Numbers with a fraction or an exponent are not modelled.
\<close>

datatype json =
    JNull
  | JBool bool
  | JInt int
  | JStr string
  | JArr "json list"
  | JObj "(string \<times> json) list"

fun wf_json :: "json \<Rightarrow> bool" where
  "wf_json (JArr xs) = list_all wf_json xs"
| "wf_json (JObj kvs) = (distinct (map fst kvs) \<and> list_all (\<lambda>kv. wf_json (snd kv)) kvs)"
| "wf_json v = True"

text \<open>The exceptions that the modelled code can raise.\<close>

datatype py_error = KeyError | IndexError | TypeError | AttributeError | ValidationError

type_synonym 'a result = "py_error + 'a"

definition bind_r :: "'a result \<Rightarrow> ('a \<Rightarrow> 'b result) \<Rightarrow> 'b result" where
  "bind_r m f = (case m of Inl e \<Rightarrow> Inl e | Inr x \<Rightarrow> f x)"

text \<open>A loop body run over a list, in order; the first exception ends the loop.\<close>

fun map_r :: "('a \<Rightarrow> 'b result) \<Rightarrow> 'a list \<Rightarrow> 'b list result" where
  "map_r f [] = Inr []"
| "map_r f (x # xs) = bind_r (f x) (\<lambda>y. bind_r (map_r f xs) (\<lambda>ys. Inr (y # ys)))"

text \<open>\<open>bool(v)\<close>, as in \<open>if v\<close> and \<open>if not v\<close>.\<close>

fun py_truthy :: "json \<Rightarrow> bool" where
  "py_truthy JNull = False"
| "py_truthy (JBool b) = b"
| "py_truthy (JInt i) = (i \<noteq> 0)"
| "py_truthy (JStr s) = (s \<noteq> [])"
| "py_truthy (JArr xs) = (xs \<noteq> [])"
| "py_truthy (JObj kvs) = (kvs \<noteq> [])"

text \<open>\<open>v.get(k, d)\<close>: only a \<open>dict\<close> has the method.\<close>

fun py_get :: "json \<Rightarrow> string \<Rightarrow> json \<Rightarrow> json result" where
  "py_get (JObj kvs) k d = Inr (case map_of kvs k of None \<Rightarrow> d | Some v \<Rightarrow> v)"
| "py_get v k d = Inl AttributeError"

text \<open>\<open>v[k]\<close> for a string \<open>k\<close>.\<close>

fun py_item :: "json \<Rightarrow> string \<Rightarrow> json result" where
  "py_item (JObj kvs) k = (case map_of kvs k of None \<Rightarrow> Inl KeyError | Some v \<Rightarrow> Inr v)"
| "py_item v k = Inl TypeError"

text \<open>\<open>v[0]\<close>.  The keys of a decoded \<open>dict\<close> are strings, so \<open>0\<close> is never one.\<close>

fun py_first :: "json \<Rightarrow> json result" where
  "py_first (JArr []) = Inl IndexError"
| "py_first (JArr (x # xs)) = Inr x"
| "py_first (JStr []) = Inl IndexError"
| "py_first (JStr (c # cs)) = Inr (JStr [c])"
| "py_first (JObj kvs) = Inl KeyError"
| "py_first v = Inl TypeError"

text \<open>\<open>for x in v\<close>: a \<open>dict\<close> gives its keys, a \<open>str\<close> its characters.\<close>

fun py_iter :: "json \<Rightarrow> json list result" where
  "py_iter (JArr xs) = Inr xs"
| "py_iter (JObj kvs) = Inr (map (\<lambda>kv. JStr (fst kv)) kvs)"
| "py_iter (JStr s) = Inr (map (\<lambda>c. JStr [c]) s)"
| "py_iter v = Inl TypeError"

text \<open>\<open>k in s\<close> for two strings: \<open>k\<close> occurs in \<open>s\<close>.\<close>

fun py_substr :: "string \<Rightarrow> string \<Rightarrow> bool" where
  "py_substr k [] = (k = [])"
| "py_substr k (c # cs) = (prefix k (c # cs) \<or> py_substr k cs)"

text \<open>\<open>k in v\<close> for a string \<open>k\<close>: a key of a \<open>dict\<close>, an element of a \<open>list\<close>, a
  substring of a \<open>str\<close>.\<close>

fun py_in :: "string \<Rightarrow> json \<Rightarrow> bool result" where
  "py_in k (JObj kvs) = Inr (k \<in> set (map fst kvs))"
| "py_in k (JArr xs) = Inr (JStr k \<in> set xs)"
| "py_in k (JStr s) = Inr (py_substr k s)"
| "py_in k v = Inl TypeError"

subsection \<open>Formatting\<close>

definition hex_digit :: "nat \<Rightarrow> char" where
  "hex_digit n = (if n < 10 then char_of (48 + n) else char_of (87 + n))"

definition hex_byte :: "nat \<Rightarrow> string" where
  "hex_byte b = [hex_digit (b div 16), hex_digit (b mod 16)]"

fun str_of_nat :: "nat \<Rightarrow> string" where
  "str_of_nat n =
     (if n < 10 then [char_of (48 + n)]
      else str_of_nat (n div 10) @ [char_of (48 + n mod 10)])"

declare str_of_nat.simps [simp del]

definition str_of_int :: "int \<Rightarrow> string" where
  "str_of_int i = (if i < 0 then CHR ''-'' # str_of_nat (nat (- i)) else str_of_nat (nat i))"

text \<open>
  \<open>repr\<close> of a \<open>str\<close>: double quotes when the string has a single quote and no double
  quote, single quotes otherwise; the quote and the backslash escaped, \<open>\t \n \r\<close> by
  name, the other code points that are not printable (below 0x20, 0x7f to 0xa0, 0xad)
  as \<open>\xNN\<close>.
\<close>

definition repr_char :: "char \<Rightarrow> char \<Rightarrow> string" where
  "repr_char q c =
     (let n = (of_char c :: nat) in
      if c = q \<or> n = 92 then [CHR 0x5C, c]
      else if n = 9 then [CHR 0x5C, CHR ''t'']
      else if n = 10 then [CHR 0x5C, CHR ''n'']
      else if n = 13 then [CHR 0x5C, CHR ''r'']
      else if n < 32 \<or> (127 \<le> n \<and> n \<le> 160) \<or> n = 173 then [CHR 0x5C, CHR ''x''] @ hex_byte n
      else [c])"

definition py_repr_str :: "string \<Rightarrow> string" where
  "py_repr_str s =
     (let q = (if CHR 0x27 \<in> set s \<and> CHR 0x22 \<notin> set s then CHR 0x22 else CHR 0x27)
      in q # concat (map (repr_char q) s) @ [q])"

fun py_repr :: "json \<Rightarrow> string" where
  "py_repr JNull = ''None''"
| "py_repr (JBool b) = (if b then ''True'' else ''False'')"
| "py_repr (JInt i) = str_of_int i"
| "py_repr (JStr s) = py_repr_str s"
| "py_repr (JArr xs) = ''['' @ py_join '', '' (map py_repr xs) @ '']''"
| "py_repr (JObj kvs) =
     ''{'' @ py_join '', '' (map (\<lambda>kv. py_repr_str (fst kv) @ '': '' @ py_repr (snd kv)) kvs)
       @ ''}''"

text \<open>\<open>str(v)\<close>, which is what a replacement field \<open>{v}\<close> of an f-string inserts.\<close>

fun py_str :: "json \<Rightarrow> string" where
  "py_str (JStr s) = s"
| "py_str v = py_repr v"

subsection \<open>\<open>json.dumps\<close>\<close>

text \<open>
  With the default \<open>ensure_ascii\<close>, every character outside \<open>' '..'~'\<close> is escaped,
  as are the double quote and the backslash.  The separators are \<open>", "\<close> and \<open>": "\<close>.
  With \<open>sort_keys=True\<close> the items of every \<open>dict\<close> are written in the order of
  their keys.
\<close>

definition json_escape_char :: "char \<Rightarrow> string" where
  "json_escape_char c =
     (let n = (of_char c :: nat) in
      if n = 34 then [CHR 0x5C, CHR 0x22]
      else if n = 92 then [CHR 0x5C, CHR 0x5C]
      else if n = 10 then [CHR 0x5C, CHR ''n'']
      else if n = 13 then [CHR 0x5C, CHR ''r'']
      else if n = 9 then [CHR 0x5C, CHR ''t'']
      else if n = 8 then [CHR 0x5C, CHR ''b'']
      else if n = 12 then [CHR 0x5C, CHR ''f'']
      else if 32 \<le> n \<and> n \<le> 126 then [c]
      else [CHR 0x5C, CHR ''u'', CHR ''0'', CHR ''0''] @ hex_byte n)"

definition json_quote :: "string \<Rightarrow> string" where
  "json_quote s = CHR 0x22 # concat (map json_escape_char s) @ [CHR 0x22]"

lemma size_json_item: "(k, v) \<in> set kvs \<Longrightarrow> size v < size (JObj kvs)"
  by (induction kvs) auto

function (sequential) json_dumps :: "bool \<Rightarrow> json \<Rightarrow> string" where
  "json_dumps sk JNull = ''null''"
| "json_dumps sk (JBool b) = (if b then ''true'' else ''false'')"
| "json_dumps sk (JInt i) = str_of_int i"
| "json_dumps sk (JStr s) = json_quote s"
| "json_dumps sk (JArr xs) = ''['' @ py_join '', '' (map (json_dumps sk) xs) @ '']''"
| "json_dumps sk (JObj kvs) =
     ''{'' @ py_join '', ''
        (map (\<lambda>kv. json_quote (fst kv) @ '': '' @ json_dumps sk (snd kv))
           (if sk then sort_key fst kvs else kvs))
       @ ''}''"
  by pat_completeness auto
termination
proof (relation "measure (\<lambda>p. size (snd p))")
  show "wf (measure (\<lambda>p. size (snd p)))" by simp
next
  fix sk :: bool and xs :: "json list" and x
  assume "x \<in> set xs"
  then show "((sk, x), (sk, JArr xs)) \<in> measure (\<lambda>p. size (snd p))"
    by (induction xs) auto
next
  fix sk :: bool and kvs :: "(string \<times> json) list" and x
  assume "x \<in> set (if sk then sort_key fst kvs else kvs)"
  then have "(fst x, snd x) \<in> set kvs" by (simp split: if_splits)
  then show "((sk, snd x), (sk, JObj kvs)) \<in> measure (\<lambda>p. size (snd p))"
    using size_json_item [of "fst x" "snd x" kvs] by simp
qed

section \<open>\<open>hashlib.md5\<close>\<close>

text \<open>
  The digest of RFC 1321 on a list of bytes: four 32-bit registers, 64 steps on every
  block of sixteen little-endian words, the message padded with 0x80, zeros and its
  length in bits.  \<open>md5_K\<close> is the table of \<open>floor(2^32 * abs(sin(i + 1)))\<close>.
\<close>

definition md5_K :: "32 word list" where
  "md5_K = [
    0xd76aa478, 0xe8c7b756, 0x242070db, 0xc1bdceee, 0xf57c0faf, 0x4787c62a, 0xa8304613, 0xfd469501,
    0x698098d8, 0x8b44f7af, 0xffff5bb1, 0x895cd7be, 0x6b901122, 0xfd987193, 0xa679438e, 0x49b40821,
    0xf61e2562, 0xc040b340, 0x265e5a51, 0xe9b6c7aa, 0xd62f105d, 0x02441453, 0xd8a1e681, 0xe7d3fbc8,
    0x21e1cde6, 0xc33707d6, 0xf4d50d87, 0x455a14ed, 0xa9e3e905, 0xfcefa3f8, 0x676f02d9, 0x8d2a4c8a,
    0xfffa3942, 0x8771f681, 0x6d9d6122, 0xfde5380c, 0xa4beea44, 0x4bdecfa9, 0xf6bb4b60, 0xbebfbc70,
    0x289b7ec6, 0xeaa127fa, 0xd4ef3085, 0x04881d05, 0xd9d4d039, 0xe6db99e5, 0x1fa27cf8, 0xc4ac5665,
    0xf4292244, 0x432aff97, 0xab9423a7, 0xfc93a039, 0x655b59c3, 0x8f0ccc92, 0xffeff47d, 0x85845dd1,
    0x6fa87e4f, 0xfe2ce6e0, 0xa3014314, 0x4e0811a1, 0xf7537e82, 0xbd3af235, 0x2ad7d2bb, 0xeb86d391]"

definition md5_S :: "nat list" where
  "md5_S = [7, 12, 17, 22, 7, 12, 17, 22, 7, 12, 17, 22, 7, 12, 17, 22,
            5, 9, 14, 20, 5, 9, 14, 20, 5, 9, 14, 20, 5, 9, 14, 20,
            4, 11, 16, 23, 4, 11, 16, 23, 4, 11, 16, 23, 4, 11, 16, 23,
            6, 10, 15, 21, 6, 10, 15, 21, 6, 10, 15, 21, 6, 10, 15, 21]"

definition rotl32 :: "32 word \<Rightarrow> nat \<Rightarrow> 32 word" where
  "rotl32 x n = (push_bit n x) OR (drop_bit (32 - n) x)"

type_synonym md5_state = "32 word \<times> 32 word \<times> 32 word \<times> 32 word"

definition md5_step :: "32 word list \<Rightarrow> nat \<Rightarrow> md5_state \<Rightarrow> md5_state" where
  "md5_step m i st =
     (case st of (a, b, c, d) \<Rightarrow>
        let f = (if i < 16 then (b AND c) OR (NOT b AND d)
                 else if i < 32 then (d AND b) OR (NOT d AND c)
                 else if i < 48 then b XOR c XOR d
                 else c XOR (b OR NOT d));
            g = (if i < 16 then i
                 else if i < 32 then (5 * i + 1) mod 16
                 else if i < 48 then (3 * i + 5) mod 16
                 else (7 * i) mod 16)
        in (d, b + rotl32 (f + a + md5_K ! i + m ! g) (md5_S ! i), b, c))"

definition md5_block :: "md5_state \<Rightarrow> 32 word list \<Rightarrow> md5_state" where
  "md5_block st m =
     (case st of (a0, b0, c0, d0) \<Rightarrow>
        (case fold (md5_step m) [0..<64] st of (a, b, c, d) \<Rightarrow>
           (a0 + a, b0 + b, c0 + c, d0 + d)))"

fun le_word :: "nat list \<Rightarrow> 32 word" where
  "le_word [] = 0"
| "le_word (b # bs) = of_nat b + push_bit 8 (le_word bs)"

fun words_of_bytes :: "nat list \<Rightarrow> 32 word list" where
  "words_of_bytes (b0 # b1 # b2 # b3 # bs) = le_word [b0, b1, b2, b3] # words_of_bytes bs"
| "words_of_bytes bs = []"

fun blocks16 :: "32 word list \<Rightarrow> 32 word list list" where
  "blocks16 ws = (if length ws < 16 then [] else take 16 ws # blocks16 (drop 16 ws))"

declare blocks16.simps [simp del]

fun le_bytes :: "nat \<Rightarrow> nat \<Rightarrow> nat list" where
  "le_bytes 0 v = []"
| "le_bytes (Suc k) v = (v mod 256) # le_bytes k (v div 256)"

definition md5_pad :: "nat list \<Rightarrow> nat list" where
  "md5_pad bs = bs @ [128] @ replicate ((119 - length bs mod 64) mod 64) 0
                  @ le_bytes 8 ((8 * length bs) mod 2 ^ 64)"

definition md5_digest :: "nat list \<Rightarrow> nat list" where
  "md5_digest bs =
     (case fold (\<lambda>m st. md5_block st m) (blocks16 (words_of_bytes (md5_pad bs)))
             (0x67452301, 0xefcdab89, 0x98badcfe, 0x10325476) of
        (a, b, c, d) \<Rightarrow> concat (map (\<lambda>w. le_bytes 4 (unat w)) [a, b, c, d]))"

text \<open>\<open>s.encode('utf-8')\<close> for code points below 256.\<close>

definition utf8_encode :: "string \<Rightarrow> nat list" where
  "utf8_encode s =
     concat (map (\<lambda>c. let n = (of_char c :: nat)
                       in if n < 128 then [n] else [192 + n div 64, 128 + n mod 64]) s)"

text \<open>\<open>hashlib.md5(s.encode()).hexdigest()\<close>.\<close>

definition md5_hexdigest :: "string \<Rightarrow> string" where
  "md5_hexdigest s = concat (map hex_byte (md5_digest (utf8_encode s)))"

section \<open>The data model (src/models.py)\<close>

record PerformanceStat =
  category :: string
  athlete_name :: string
  display_value :: string
  team :: "string option"

record GameContext =
  venue :: "string option"
  location :: "string option"
  weather :: "string option"
  odds :: "string option"
  broadcast :: "string option"

text \<open>
  \<open>SportsMetadata\<close>.  The fields that the stored record shares with it come first;
  \<open>teams\<close> and \<open>athletes\<close> are built as \<open>list(set(...))\<close>, a list of the distinct
  names in an order that Python does not fix, and are kept as sets.
\<close>

record meta_fields =
  sport :: string
  content_type :: string
  content_hash :: string
  source_file :: string
  teams :: "string set"
  athletes :: "string set"
  headline :: "string option"
  event_date :: "string option"
  status :: "string option"
  scores :: "string list"
  team_stats :: "string option"

record SportsMetadata = meta_fields +
  performers :: "PerformanceStat list"
  game_context :: "GameContext option"

text \<open>
  The record handed to the store: \<open>{"id": ..., "chunk_text": ..., **meta_dict}\<close> with
  \<open>meta_dict = smart_meta.model_dump(exclude_none=True)\<close>, in which \<open>performers\<close> and
  \<open>context\<close> have been replaced by JSON text.  A field that is \<open>None\<close> here is a
  key that the dictionary does not have.  \<open>rec_id\<close> is the key \<open>"id"\<close>.
\<close>

record upsert_record = meta_fields +
  rec_id :: string
  chunk_text :: string
  performers_json :: string
  context_json :: "string option"

text \<open>Validation of a \<open>str\<close> and of an \<open>Optional[str]\<close> field: no coercion.\<close>

fun validate_str :: "json \<Rightarrow> string result" where
  "validate_str (JStr s) = Inr s"
| "validate_str v = Inl ValidationError"

fun validate_opt_str :: "json \<Rightarrow> string option result" where
  "validate_opt_str JNull = Inr None"
| "validate_opt_str (JStr s) = Inr (Some s)"
| "validate_opt_str v = Inl ValidationError"

definition make_PerformanceStat :: "json \<Rightarrow> json \<Rightarrow> string \<Rightarrow> json \<Rightarrow> PerformanceStat result" where
  "make_PerformanceStat c n v t =
     bind_r (validate_str c) (\<lambda>c'.
     bind_r (validate_str n) (\<lambda>n'.
     bind_r (validate_opt_str t) (\<lambda>t'.
     Inr \<lparr>category = c', athlete_name = n', display_value = v, team = t'\<rparr>)))"

definition make_GameContext :: "json \<Rightarrow> json \<Rightarrow> json \<Rightarrow> json \<Rightarrow> json \<Rightarrow> GameContext result" where
  "make_GameContext v l w od b =
     bind_r (validate_opt_str v) (\<lambda>v'.
     bind_r (validate_opt_str l) (\<lambda>l'.
     bind_r (validate_opt_str w) (\<lambda>w'.
     bind_r (validate_opt_str od) (\<lambda>od'.
     bind_r (validate_opt_str b) (\<lambda>b'.
     Inr \<lparr>venue = v', location = l', weather = w', odds = od', broadcast = b'\<rparr>)))))"

text \<open>
  \<open>list(set(xs))\<close> raises \<open>TypeError\<close> on a \<open>list\<close> or a \<open>dict\<close> element.  Its
  elements are then validated as \<open>List[str]\<close>, which leaves a set of strings;
  duplicates go at that point.
\<close>

fun py_hashable :: "json \<Rightarrow> bool" where
  "py_hashable (JArr xs) = False"
| "py_hashable (JObj kvs) = False"
| "py_hashable v = True"

definition py_set :: "json list \<Rightarrow> json list result" where
  "py_set xs = (if list_all py_hashable xs then Inr xs else Inl TypeError)"

definition validate_str_list :: "json list \<Rightarrow> string set result" where
  "validate_str_list xs = bind_r (map_r validate_str xs) (\<lambda>ss. Inr (set ss))"

text \<open>\<open>model_dump()\<close> of the nested models, which \<open>json.dumps\<close> then serialises.\<close>

fun opt_json :: "string option \<Rightarrow> json" where
  "opt_json None = JNull"
| "opt_json (Some s) = JStr s"

definition dump_PerformanceStat :: "PerformanceStat \<Rightarrow> json" where
  "dump_PerformanceStat p =
     JObj [(''category'', JStr (category p)), (''athlete_name'', JStr (athlete_name p)),
           (''display_value'', JStr (display_value p)), (''team'', opt_json (team p))]"

definition dump_GameContext :: "GameContext \<Rightarrow> json" where
  "dump_GameContext c =
     JObj [(''venue'', opt_json (venue c)), (''location'', opt_json (location c)),
           (''weather'', opt_json (weather c)), (''odds'', opt_json (odds c)),
           (''broadcast'', opt_json (broadcast c))]"

section \<open>Parsing and text synthesis (scripts/ingest.py)\<close>

text \<open>
  \<open>clean_display_value\<close> at its call sites, where the argument is whatever
  \<open>l['data'].get('displayValue', '')\<close> gave: a falsy value gives \<open>"N/A"\<close>, and only a
  \<open>str\<close> has \<open>split\<close>.
\<close>

fun clean_display_value_json :: "json \<Rightarrow> string result" where
  "clean_display_value_json (JStr s) = Inr (clean_display_value s)"
| "clean_display_value_json v = (if py_truthy v then Inl AttributeError else Inr ''N/A'')"

text \<open>
  An entry of \<open>all_leaders\<close>: the dictionary with the keys \<open>category\<close>, \<open>data\<close> and
  \<open>team\<close>.
\<close>

record leader =
  leader_category :: json
  leader_data :: json
  leader_team :: json

text \<open>\<open>cat["leaders"][0] if cat.get("leaders") else None\<close>\<close>

definition first_leader :: "json \<Rightarrow> json result" where
  "first_leader cat =
     bind_r (py_get cat ''leaders'' JNull) (\<lambda>ls.
       if py_truthy ls then bind_r (py_item cat ''leaders'') py_first else Inr JNull)"

definition game_leader :: "json \<Rightarrow> leader result" where
  "game_leader cat =
     bind_r (py_item cat ''displayName'') (\<lambda>dn.
     bind_r (first_leader cat) (\<lambda>d.
     Inr \<lparr>leader_category = dn, leader_data = d, leader_team = JNull\<rparr>))"

definition team_leader :: "json \<Rightarrow> json \<Rightarrow> leader result" where
  "team_leader team_name cat =
     bind_r (py_item cat ''displayName'') (\<lambda>dn.
     bind_r (first_leader cat) (\<lambda>d.
     Inr \<lparr>leader_category = JStr (py_str team_name @ '' '' @ py_str dn),
          leader_data = d, leader_team = team_name\<rparr>))"

definition team_leaders :: "json \<Rightarrow> leader list result" where
  "team_leaders team_entry =
     bind_r (py_item team_entry ''team'') (\<lambda>t.
     bind_r (py_item t ''abbreviation'') (\<lambda>team_name.
     bind_r (py_get team_entry ''leaders'' (JArr [])) (\<lambda>ls.
     bind_r (py_iter ls) (\<lambda>cats.
     map_r (team_leader team_name) cats))))"

definition extract_leaders :: "json \<Rightarrow> leader list result" where
  "extract_leaders comp' =
     bind_r (py_in ''leaders'' comp') (\<lambda>has.
     bind_r (if has
             then bind_r (py_item comp' ''leaders'') (\<lambda>ls.
                  bind_r (py_iter ls) (\<lambda>cats. map_r game_leader cats))
             else Inr []) (\<lambda>game.
     bind_r (py_get comp' ''competitors'' (JArr [])) (\<lambda>cs.
     bind_r (py_iter cs) (\<lambda>entries.
     bind_r (map_r team_leaders entries) (\<lambda>per_team.
     Inr (filter (\<lambda>l. py_truthy (leader_data l)) (game @ concat per_team)))))))"

text \<open>The statistics of one competitor that \<open>extract_team_stats\<close> keeps.\<close>

definition key_stat :: "json \<Rightarrow> string list result" where
  "key_stat stat =
     bind_r (py_item stat ''name'') (\<lambda>n.
       if n \<in> set [JStr ''fieldGoalPct'', JStr ''threePointPct'', JStr ''freeThrowPct'']
       then bind_r (py_item stat ''abbreviation'') (\<lambda>a.
            bind_r (py_item stat ''displayValue'') (\<lambda>v.
            Inr [py_str a @ '': '' @ py_str v @ ''%'']))
       else Inr [])"

definition competitor_stats :: "json \<Rightarrow> string list result" where
  "competitor_stats c =
     bind_r (py_item c ''team'') (\<lambda>t.
     bind_r (py_item t ''abbreviation'') (\<lambda>abbr.
     bind_r (py_get c ''statistics'' (JArr [])) (\<lambda>sts.
     bind_r (py_iter sts) (\<lambda>stats.
     bind_r (map_r key_stat stats) (\<lambda>ks.
       let key_stats = concat ks
       in Inr (if key_stats \<noteq> []
               then [py_str abbr @ '' ['' @ py_join '', '' key_stats @ '']'']
               else []))))))"

definition extract_team_stats :: "json \<Rightarrow> string result" where
  "extract_team_stats comp' =
     bind_r (py_get comp' ''competitors'' (JArr [])) (\<lambda>cs.
     bind_r (py_iter cs) (\<lambda>entries.
     bind_r (map_r competitor_stats entries) (\<lambda>stats_summary.
     Inr (py_join '' | '' (concat stats_summary)))))"

text \<open>\<open>c['team']['displayName']\<close>\<close>

definition team_display_name :: "json \<Rightarrow> json result" where
  "team_display_name c = bind_r (py_item c ''team'') (\<lambda>t. py_item t ''displayName'')"

definition score_part :: "json \<Rightarrow> string result" where
  "score_part c =
     bind_r (team_display_name c) (\<lambda>dn.
     bind_r (py_get c ''score'' (JStr ''0'')) (\<lambda>sc.
     Inr (py_str dn @ '' ('' @ py_str sc @ '')'')))"

text \<open>The athlete's name and the cleaned value of a leader entry.\<close>

definition leader_name :: "leader \<Rightarrow> json result" where
  "leader_name l =
     bind_r (py_get (leader_data l) ''athlete'' (JObj [])) (\<lambda>a.
     py_get a ''displayName'' (JStr ''Unknown''))"

definition leader_value :: "leader \<Rightarrow> string result" where
  "leader_value l =
     bind_r (py_get (leader_data l) ''displayValue'' (JStr [])) clean_display_value_json"

definition leader_line :: "leader \<Rightarrow> string result" where
  "leader_line l =
     bind_r (leader_name l) (\<lambda>name.
     bind_r (leader_value l) (\<lambda>val.
     Inr (py_str (leader_category l) @ '': '' @ py_str name @ '' ('' @ val @ '')'')))"

text \<open>\<open>event.get("competitions", [{}])[0]\<close> and \<open>event.get("status", {}).get("type", {})\<close>\<close>

definition first_competition :: "json \<Rightarrow> json result" where
  "first_competition event = bind_r (py_get event ''competitions'' (JArr [JObj []])) py_first"

definition status_type :: "json \<Rightarrow> json result" where
  "status_type event =
     bind_r (py_get event ''status'' (JObj [])) (\<lambda>s. py_get s ''type'' (JObj []))"

text \<open>
  The state on which the synthesis branches:
  \<open>event.get("status", {}).get("type", {}).get("state", "pre")\<close>.
\<close>

definition event_state :: "json \<Rightarrow> json result" where
  "event_state event = bind_r (status_type event) (\<lambda>so. py_get so ''state'' (JStr ''pre''))"

text \<open>\<open>comp.get("odds", [{}])[0].get("details", "N/A") if comp.get("odds") else "N/A"\<close>\<close>

definition text_odds :: "json \<Rightarrow> json result" where
  "text_odds comp' =
     bind_r (py_get comp' ''odds'' JNull) (\<lambda>od.
       if py_truthy od
       then bind_r (py_get comp' ''odds'' (JArr [JObj []])) (\<lambda>ol.
            bind_r (py_first ol) (\<lambda>o0. py_get o0 ''details'' (JStr ''N/A'')))
       else Inr (JStr ''N/A''))"

definition transform_event_to_text :: "json \<Rightarrow> string result" where
  "transform_event_to_text event =
     bind_r (first_competition event) (\<lambda>comp'.
     bind_r (status_type event) (\<lambda>status_obj.
     bind_r (py_get status_obj ''state'' (JStr ''pre'')) (\<lambda>state.
     bind_r (py_get status_obj ''detail'' (JStr ''TBD'')) (\<lambda>detail.
     bind_r (py_get event ''name'' (JStr ''Unknown Matchup'')) (\<lambda>matchup.
     bind_r (py_get comp' ''competitors'' (JArr [])) (\<lambda>cs.
     bind_r (py_iter cs) (\<lambda>entries.
     bind_r (map_r score_part entries) (\<lambda>score_parts.
     bind_r (extract_leaders comp') (\<lambda>leaders.
     bind_r (map_r leader_line leaders) (\<lambda>leader_text_list.
     bind_r (extract_team_stats comp') (\<lambda>team_stats_text.
     bind_r (py_get comp' ''venue'' (JObj [])) (\<lambda>v.
     bind_r (py_get v ''fullName'' (JStr ''TBD'')) (\<lambda>venue.
     bind_r (text_odds comp') (\<lambda>odds.
       let score_line = py_join '' vs '' score_parts;
           leader_text = py_join '' | '' leader_text_list;
           stats_block = (if team_stats_text \<noteq> []
                          then ''TEAM STATS: '' @ team_stats_text @ ''. '' else [])
       in if state = JStr ''pre''
          then bind_r (py_get event ''date'' JNull) (\<lambda>date.
               Inr (''PREVIEW: '' @ py_str matchup @ '' at '' @ py_str venue
                    @ ''. TIME: '' @ py_str date @ ''. ''
                    @ ''ODDS: '' @ py_str odds @ ''. ''
                    @ ''PROJECTED LEADERS: '' @ leader_text @ ''.''))
          else if state = JStr ''in''
          then Inr (''LIVE GAME ('' @ py_str detail @ ''): '' @ score_line @ ''. ''
                    @ stats_block
                    @ ''LEADERS: '' @ leader_text @ ''.'')
          else Inr (''FINAL SCORE: '' @ score_line @ ''. ''
                    @ stats_block
                    @ ''TOP PERFORMERS: '' @ leader_text @ ''.'')))))))))))))))"

section \<open>Metadata assembly (scripts/ingest.py)\<close>

text \<open>
  One step of the loop over the competitors in \<open>extract_smart_metadata\<close>: the name
  appended to \<open>teams\<close> and the string appended to \<open>score_list\<close>.  The source reads
  \<open>c["team"]["displayName"]\<close> twice, with the same result.
\<close>

definition score_entry :: "json \<Rightarrow> (json \<times> string) result" where
  "score_entry c =
     bind_r (team_display_name c) (\<lambda>dn.
     bind_r (py_get c ''score'' (JStr ''0'')) (\<lambda>sc.
     Inr (dn, py_str dn @ '' '' @ py_str sc)))"

text \<open>One step of the loop over the leaders: the name appended to \<open>athletes\<close> and the
  \<open>PerformanceStat\<close> appended to \<open>performers\<close>.\<close>

definition performer_of :: "leader \<Rightarrow> (json \<times> PerformanceStat) result" where
  "performer_of l =
     bind_r (leader_name l) (\<lambda>name.
     bind_r (leader_value l) (\<lambda>val.
     bind_r (make_PerformanceStat (leader_category l) name val (leader_team l)) (\<lambda>p.
     Inr (name, p))))"

text \<open>\<open>odds_list[0].get("details") if odds_list else "N/A"\<close>\<close>

definition meta_odds :: "json \<Rightarrow> json result" where
  "meta_odds comp' =
     bind_r (py_get comp' ''odds'' (JArr [])) (\<lambda>odds_list.
       if py_truthy odds_list
       then bind_r (py_first odds_list) (\<lambda>o0. py_get o0 ''details'' JNull)
       else Inr (JStr ''N/A''))"

definition event_context :: "json \<Rightarrow> json \<Rightarrow> GameContext result" where
  "event_context raw_data comp' =
     bind_r (py_get raw_data ''weather'' (JObj [])) (\<lambda>w.
     bind_r (py_get w ''displayValue'' (JStr [])) (\<lambda>weather'.
     bind_r (meta_odds comp') (\<lambda>odds'.
     bind_r (py_get comp' ''venue'' (JObj [])) (\<lambda>v.
     bind_r (py_get v ''fullName'' JNull) (\<lambda>venue'.
     bind_r (py_get comp' ''venue'' (JObj [])) (\<lambda>v2.
     bind_r (py_get v2 ''address'' (JObj [])) (\<lambda>a.
     bind_r (py_get a ''city'' JNull) (\<lambda>location'.
     bind_r (py_get raw_data ''broadcast'' JNull) (\<lambda>broadcast'.
     make_GameContext venue' location' weather' odds' broadcast')))))))))"

text \<open>One step of the loop over the categories of an article: what it appends to
  \<open>teams\<close> and to \<open>athletes\<close>.\<close>

definition news_category :: "json \<Rightarrow> (json list \<times> json list) result" where
  "news_category cat =
     bind_r (py_get cat ''type'' JNull) (\<lambda>t.
       if t = JStr ''team''
       then bind_r (py_get cat ''description'' JNull) (\<lambda>d. Inr ([d], []))
       else if t = JStr ''athlete''
       then bind_r (py_get cat ''description'' JNull) (\<lambda>d. Inr ([], [d]))
       else Inr ([], []))"

text \<open>The closing \<open>SportsMetadata(...)\<close> call: the two \<open>list(set(...))\<close> arguments,
  then the validation of the fields.\<close>

definition make_SportsMetadata ::
  "string \<Rightarrow> string \<Rightarrow> string \<Rightarrow> string \<Rightarrow> json list \<Rightarrow> json list \<Rightarrow> json \<Rightarrow> json \<Rightarrow> json
   \<Rightarrow> PerformanceStat list \<Rightarrow> GameContext option \<Rightarrow> string list \<Rightarrow> string option
   \<Rightarrow> SportsMetadata result" where
  "make_SportsMetadata sp ct ch sf ts as hl ed st ps cx sc tst =
     bind_r (py_set ts) (\<lambda>ts1.
     bind_r (py_set as) (\<lambda>as1.
     bind_r (validate_str_list ts1) (\<lambda>ts2.
     bind_r (validate_str_list as1) (\<lambda>as2.
     bind_r (validate_opt_str hl) (\<lambda>hl'.
     bind_r (validate_opt_str ed) (\<lambda>ed'.
     bind_r (validate_opt_str st) (\<lambda>st'.
     Inr \<lparr>sport = sp, content_type = ct, content_hash = ch, source_file = sf,
          teams = ts2, athletes = as2, headline = hl', event_date = ed', status = st',
          scores = sc, team_stats = tst, performers = ps, game_context = cx\<rparr>)))))))"

text \<open>
  \<open>hashlib.md5(json.dumps(raw_data, sort_keys=True).encode('utf-8')).hexdigest()\<close>
\<close>

definition content_hash_of :: "json \<Rightarrow> string" where
  "content_hash_of raw_data = md5_hexdigest (json_dumps True raw_data)"

definition extract_smart_metadata :: "json \<Rightarrow> string \<Rightarrow> string \<Rightarrow> SportsMetadata result" where
  "extract_smart_metadata raw_data filename stable_id =
     (let is_news = py_substr ''news'' filename;
          sport' = (if py_substr ''nba'' filename then ''nba'' else ''nfl'');
          c_hash = content_hash_of raw_data
      in if \<not> is_news
         then
           bind_r (first_competition raw_data) (\<lambda>comp'.
           bind_r (status_type raw_data) (\<lambda>status_obj.
           bind_r (py_get comp' ''competitors'' (JArr [])) (\<lambda>cs.
           bind_r (py_iter cs) (\<lambda>entries.
           bind_r (map_r score_entry entries) (\<lambda>team_scores.
           bind_r (extract_leaders comp') (\<lambda>raw_leaders.
           bind_r (map_r performer_of raw_leaders) (\<lambda>perf.
           bind_r (event_context raw_data comp') (\<lambda>context'.
           bind_r (extract_team_stats comp') (\<lambda>team_stats_str.
           bind_r (py_get raw_data ''name'' JNull) (\<lambda>headline'.
           bind_r (py_get raw_data ''date'' JNull) (\<lambda>event_date'.
           bind_r (py_get status_obj ''state'' JNull) (\<lambda>status'.
           make_SportsMetadata sport' ''score'' c_hash filename
             (map fst team_scores) (map fst perf) headline' event_date' status'
             (map snd perf) (Some context') (map snd team_scores)
             (Some team_stats_str)))))))))))))
         else
           bind_r (py_get raw_data ''headline'' JNull) (\<lambda>headline'.
           bind_r (py_get raw_data ''published'' JNull) (\<lambda>event_date'.
           bind_r (py_get raw_data ''categories'' (JArr [])) (\<lambda>cs.
           bind_r (py_iter cs) (\<lambda>cats.
           bind_r (map_r news_category cats) (\<lambda>found.
           make_SportsMetadata sport' ''news'' c_hash filename
             (concat (map fst found)) (concat (map snd found)) headline' event_date'
             (JStr ''news'') [] None [] None))))))"

section \<open>The ingestion run (scripts/ingest.py)\<close>

text \<open>
  The stable identifier of a document: \<open>page_content\<close> is the text of the document and
  \<open>raw_json\<close> what \<open>json.loads\<close> made of it.
  \<^verbatim>\<open>
  entity_id = raw_json.get("id")
  if not entity_id:
      entity_id = hashlib.md5(doc.page_content.encode()).hexdigest()
  stable_id = f"doc-{entity_id}"
  \<close>
\<close>

definition stable_id_of :: "string \<Rightarrow> json \<Rightarrow> string result" where
  "stable_id_of page_content raw_json =
     bind_r (py_get raw_json ''id'' JNull) (\<lambda>entity_id.
       let entity_id' = (if \<not> py_truthy entity_id
                         then JStr (md5_hexdigest page_content) else entity_id)
       in Inr (''doc-'' @ py_str entity_id'))"

text \<open>\<open>str\<close> of an \<open>Optional[str]\<close> attribute inside an f-string.\<close>

fun str_opt :: "string option \<Rightarrow> string" where
  "str_opt None = ''None''"
| "str_opt (Some s) = s"

definition chunk_text_of :: "SportsMetadata \<Rightarrow> json \<Rightarrow> string result" where
  "chunk_text_of smart_meta raw_json =
     (if content_type smart_meta = ''news''
      then bind_r (py_get raw_json ''description'' (JStr [])) (\<lambda>d.
           Inr (''NEWS: '' @ str_opt (headline smart_meta) @ ''. '' @ py_str d))
      else transform_event_to_text raw_json)"

text \<open>The body of the loop over the documents of one file.\<close>

definition ingest_doc :: "string \<Rightarrow> string \<Rightarrow> json \<Rightarrow> upsert_record result" where
  "ingest_doc filename page_content raw_json =
     bind_r (stable_id_of page_content raw_json) (\<lambda>stable_id.
     bind_r (extract_smart_metadata raw_json filename stable_id) (\<lambda>smart_meta.
     bind_r (chunk_text_of smart_meta raw_json) (\<lambda>chunk_text'.
     Inr \<lparr>sport = sport smart_meta, content_type = content_type smart_meta,
          content_hash = content_hash smart_meta, source_file = source_file smart_meta,
          teams = teams smart_meta, athletes = athletes smart_meta,
          headline = headline smart_meta, event_date = event_date smart_meta,
          status = status smart_meta, scores = scores smart_meta,
          team_stats = team_stats smart_meta,
          rec_id = stable_id, chunk_text = chunk_text',
          performers_json =
            json_dumps False (JArr (map dump_PerformanceStat (performers smart_meta))),
          context_json =
            map_option (\<lambda>c. json_dumps False (dump_GameContext c))
              (game_context smart_meta)\<rparr>)))"

text \<open>
  \<open>{r['id']: r for r in all_records}\<close>: a dictionary keeps a key at the place of its
  first insertion and the value of its last one.
\<close>

fun dict_set :: "('k \<times> 'v) list \<Rightarrow> 'k \<Rightarrow> 'v \<Rightarrow> ('k \<times> 'v) list" where
  "dict_set [] k v = [(k, v)]"
| "dict_set ((k', v') # d) k v = (if k' = k then (k, v) # d else (k', v') # dict_set d k v)"

definition unique_records :: "upsert_record list \<Rightarrow> upsert_record list" where
  "unique_records all_records =
     map snd (fold (\<lambda>r d. dict_set d (rec_id r) r) all_records [])"

definition data_files :: "string list" where
  "data_files = [''nba-news.json'', ''nfl-news.json'', ''nba-score.json'', ''nfl-score.json'']"

text \<open>
  The files are given as a map from the name of a file under \<open>data/\<close> to its documents
  (\<open>None\<close>: no such file, which is skipped); a document is its text and the decoded
  value.  The result is the batch passed to \<open>index.upsert_records\<close>, \<open>None\<close> when
  there is no record and nothing is sent.
\<close>

definition ingest_file ::
  "(string \<Rightarrow> (string \<times> json) list option) \<Rightarrow> string \<Rightarrow> upsert_record list result" where
  "ingest_file files filename =
     (case files filename of
        None \<Rightarrow> Inr []
      | Some docs \<Rightarrow> map_r (\<lambda>doc. ingest_doc filename (fst doc) (snd doc)) docs)"

definition run_ingestion ::
  "(string \<Rightarrow> (string \<times> json) list option) \<Rightarrow> upsert_record list option result" where
  "run_ingestion files =
     bind_r (map_r (ingest_file files) data_files) (\<lambda>per_file.
       let all_records = concat per_file
       in Inr (if all_records \<noteq> [] then Some (unique_records all_records) else None))"

section \<open>Retrieval (src/tools/retriever.py)\<close>

text \<open>
  A hit of the store's response: its \<open>_score\<close>, a number this model leaves opaque, and
  its \<open>fields\<close>, the flat dictionary that was stored.  \<open>hit.get("fields", {})\<close> is
  the empty dictionary for a hit without fields.
\<close>

record 's hit =
  hit_score :: "'s option"
  hit_fields :: "(string \<times> json) list option"

text \<open>An entry of the list that \<open>search\<close> returns; \<open>None\<close> is \<open>JNull\<close>.\<close>

record 's search_result =
  res_score :: "'s option"
  res_text :: json
  res_headline :: json
  res_date :: json
  res_performers :: json
  res_context :: json

text \<open>
  \<^verbatim>\<open>
  performers = []
  if "performers" in fields:
      try:
          performers = json.loads(fields["performers"])
      except:
          pass
  \<close>
  \<open>json.loads\<close> is a parameter: \<open>loads s\<close> is \<open>None\<close> when the text \<open>s\<close> is not
  JSON and the call raises.  It also raises on a value that is not text.  The bare
  \<open>except\<close> catches both, and the field keeps the empty structure it started with.
\<close>

definition load_field ::
  "(string \<Rightarrow> json option) \<Rightarrow> (string \<times> json) list \<Rightarrow> string \<Rightarrow> json \<Rightarrow> json" where
  "load_field loads flds k dflt =
     (case map_of flds k of
        None \<Rightarrow> dflt
      | Some (JStr s) \<Rightarrow> (case loads s of None \<Rightarrow> dflt | Some v \<Rightarrow> v)
      | Some _ \<Rightarrow> dflt)"

text \<open>\<open>fields.get(k)\<close>\<close>

definition field_get :: "(string \<times> json) list \<Rightarrow> string \<Rightarrow> json" where
  "field_get flds k = (case map_of flds k of None \<Rightarrow> JNull | Some v \<Rightarrow> v)"

definition result_of_hit :: "(string \<Rightarrow> json option) \<Rightarrow> 's hit \<Rightarrow> 's search_result" where
  "result_of_hit loads h =
     (let flds = (case hit_fields h of None \<Rightarrow> [] | Some f \<Rightarrow> f)
      in \<lparr>res_score = hit_score h,
          res_text = field_get flds ''chunk_text'',
          res_headline = field_get flds ''headline'',
          res_date = field_get flds ''event_date'',
          res_performers = load_field loads flds ''performers'' (JArr []),
          res_context = load_field loads flds ''context'' (JObj [])\<rparr>)"

text \<open>
  \<open>search\<close>, given what \<open>index.search_records\<close> did: it raised, or it returned a
  response whose \<open>result.hits\<close> is the list of hits (the empty list when the response
  has no \<open>result\<close> or no \<open>hits\<close>).  An exception is caught and the empty list returned.
\<close>

definition search :: "(string \<Rightarrow> json option) \<Rightarrow> py_error + 's hit list \<Rightarrow> 's search_result list" where
  "search loads response =
     (case response of
        Inl e \<Rightarrow> []
      | Inr hits \<Rightarrow> map (result_of_hit loads) hits)"

section \<open>The live synchronisation (scripts/update_vector_db.py)\<close>

text \<open>
  What \<open>process_scores\<close> reads from one event, in the order in which it reads it.
  Every access is a subscript.  \<open>generate_hash\<close> calls \<open>encode\<close>, which only a
  \<open>str\<close> has.  The \<open>SearchOptimization\<close> value built from the same strings is left
  out: \<open>src/models.py\<close> declares no such class.
\<close>

record sync_record =
  sync_id :: string
  sync_chunk_text :: string
  sync_content_hash :: string
  sync_headline :: "string option"
  sync_status :: "string option"
  sync_event_date :: "string option"
  sync_scores :: "string list"
  sync_teams :: "string list"

fun generate_hash :: "json \<Rightarrow> string result" where
  "generate_hash (JStr s) = Inr (md5_hexdigest s)"
| "generate_hash v = Inl AttributeError"

definition sync_score :: "json \<Rightarrow> string result" where
  "sync_score t =
     bind_r (team_display_name t) (\<lambda>dn.
     bind_r (py_item t ''score'') (\<lambda>sc.
     Inr (py_str dn @ '' '' @ py_str sc)))"

definition process_scores_event :: "json \<Rightarrow> sync_record result" where
  "process_scores_event ev =
     bind_r (py_item ev ''competitions'') (\<lambda>cs.
     bind_r (py_first cs) (\<lambda>comp'.
     bind_r (py_item comp' ''competitors'') (\<lambda>ts.
     bind_r (py_iter ts) (\<lambda>competitors.
     bind_r (map_r sync_score competitors) (\<lambda>scores'.
     bind_r (py_item ev ''name'') (\<lambda>name.
     bind_r (generate_hash name) (\<lambda>h.
     bind_r (py_item ev ''status'') (\<lambda>s.
     bind_r (py_item s ''type'') (\<lambda>ty.
     bind_r (py_item ty ''state'') (\<lambda>state.
     bind_r (py_item ev ''date'') (\<lambda>date.
     bind_r (map_r team_display_name competitors) (\<lambda>teams'.
     bind_r (map_r validate_str teams') (\<lambda>teams2.
     bind_r (validate_opt_str name) (\<lambda>headline'.
     bind_r (validate_opt_str state) (\<lambda>status'.
     bind_r (validate_opt_str date) (\<lambda>date'.
     bind_r (py_item ev ''id'') (\<lambda>i.
     bind_r (validate_str name) (\<lambda>chunk.
     Inr \<lparr>sync_id = ''score-'' @ py_str i, sync_chunk_text = chunk,
          sync_content_hash = h, sync_headline = headline', sync_status = status',
          sync_event_date = date', sync_scores = scores', sync_teams = teams2\<rparr>
     ))))))))))))))))))"

section \<open>Records that differ in the order of their keys\<close>

text \<open>
  \<open>key_reorder a b\<close>: \<open>b\<close> is \<open>a\<close> with the items of its dictionaries, at any depth,
  in another order.  In the rule for dictionaries, \<open>zs\<close> has the keys of \<open>xs\<close> in the
  order of \<open>xs\<close> with reordered values, and \<open>ys\<close> is a permutation of \<open>zs\<close>.
\<close>

inductive key_reorder :: "json \<Rightarrow> json \<Rightarrow> bool" where
  kr_null: "key_reorder JNull JNull"
| kr_bool: "key_reorder (JBool b) (JBool b)"
| kr_int: "key_reorder (JInt i) (JInt i)"
| kr_str: "key_reorder (JStr s) (JStr s)"
| kr_arr: "list_all2 key_reorder xs ys \<Longrightarrow> key_reorder (JArr xs) (JArr ys)"
| kr_obj: "list_all2 (\<lambda>a b. fst a = fst b \<and> key_reorder (snd a) (snd b)) xs zs
           \<Longrightarrow> mset zs = mset ys \<Longrightarrow> key_reorder (JObj xs) (JObj ys)"

section \<open>Example inputs\<close>

text \<open>Two articles with the same identifier in one file, and no other file.\<close>

definition article_a :: json where
  "article_a = JObj [(''id'', JStr ''7''), (''headline'', JStr ''A''),
                      (''description'', JStr ''first'')]"

definition article_b :: json where
  "article_b = JObj [(''description'', JStr ''second''), (''headline'', JStr ''A''),
                      (''id'', JStr ''7'')]"

definition dup_files :: "string \<Rightarrow> (string \<times> json) list option" where
  "dup_files f =
     (if f = ''nba-news.json''
      then Some [(json_dumps False article_a, article_a), (json_dumps False article_b, article_b)]
      else None)"

text \<open>An event, and the same event with other orders of keys at two depths.\<close>

definition event_c :: json where
  "event_c = JObj [(''id'', JStr ''9''),
     (''status'', JObj [(''type'', JObj [(''state'', JStr ''pre''), (''detail'', JStr ''Sched'')])]),
     (''name'', JStr ''A at B'')]"

definition event_c_reordered :: json where
  "event_c_reordered = JObj [(''name'', JStr ''A at B''),
     (''status'', JObj [(''type'', JObj [(''detail'', JStr ''Sched''), (''state'', JStr ''pre'')])]),
     (''id'', JStr ''9'')]"




section \<open>Exceptions as values\<close>

lemma bind_r_simps [simp]: "bind_r (Inr x) f = f x" "bind_r (Inl e) f = Inl e"
  by (simp_all add: bind_r_def)

lemma bind_r_eq_Inr: "bind_r m f = Inr y \<longleftrightarrow> (\<exists>x. m = Inr x \<and> f x = Inr y)"
  by (cases m) auto

lemmas parse_defs = first_leader_def game_leader_def team_leader_def team_leaders_def
  extract_leaders_def key_stat_def competitor_stats_def extract_team_stats_def
  team_display_name_def score_part_def leader_name_def leader_value_def leader_line_def
  first_competition_def status_type_def event_state_def text_odds_def
  transform_event_to_text_def

lemmas meta_defs = score_entry_def performer_of_def meta_odds_def event_context_def
  news_category_def make_SportsMetadata_def extract_smart_metadata_def
  make_PerformanceStat_def make_GameContext_def py_set_def validate_str_list_def
  stable_id_of_def chunk_text_of_def ingest_doc_def

section \<open>Facts about splitting, joining and stripping\<close>

lemma py_split_ne: "py_split c s \<noteq> []"
  by (induction s) (auto split: list.splits)

lemma py_split_no_sep: "p \<in> set (py_split c s) \<Longrightarrow> c \<notin> set p"
proof (induction s arbitrary: p)
  case Nil
  then show ?case by simp
next
  case (Cons x xs)
  obtain h t where ht: "py_split c xs = h # t"
    using py_split_ne by (cases "py_split c xs") auto
  show ?case using Cons ht by (auto split: if_splits list.splits)
qed

lemma py_split_plain: "c \<notin> set s \<Longrightarrow> py_split c s = [s]"
  by (induction s) auto

lemma py_split_app: "c \<notin> set p \<Longrightarrow> py_split c (p @ c # r) = p # py_split c r"
  by (induction p) auto

lemma py_split_pre:
  "c \<notin> set p \<Longrightarrow> py_split c (p @ r) = (p @ hd (py_split c r)) # tl (py_split c r)"
  by (induction p) (auto simp: py_split_ne split: list.splits)

text \<open>Splitting is undone by joining with the separator.\<close>

lemma py_join_split: "py_join [c] (py_split c s) = s"
proof (induction s)
  case Nil
  then show ?case by simp
next
  case (Cons x xs)
  obtain h t where ht: "py_split c xs = h # t"
    using py_split_ne by (cases "py_split c xs") auto
  show ?case using Cons ht by (cases t) auto
qed

lemma py_split_join:
  "ps \<noteq> [] \<Longrightarrow> \<forall>p \<in> set ps. c \<notin> set p \<Longrightarrow> c \<notin> set sep
   \<Longrightarrow> py_split c (py_join (c # sep) ps) = hd ps # map ((@) sep) (tl ps)"
proof (induction "c # sep" ps rule: py_join.induct)
  case 1
  then show ?case by simp
next
  case (2 p)
  then show ?case by (simp add: py_split_plain)
next
  case (3 p q ps)
  then show ?case by (simp add: py_split_app py_split_pre)
qed

lemma py_strip_subset: "set (py_strip s) \<subseteq> set s"
  unfolding py_strip_def by (metis set_dropWhileD set_rev subsetI)

lemma dropWhile_rev_hd:
  assumes "t = [] \<or> \<not> P (hd t)"
  shows "dropWhile P (rev (dropWhile P (rev t))) = rev (dropWhile P (rev t))"
proof (cases "dropWhile P (rev t) = []")
  case True
  then show ?thesis by (simp only: rev.simps dropWhile.simps)
next
  case False
  define u where "u = dropWhile P (rev t)"
  have "rev t = takeWhile P (rev t) @ u" by (simp add: u_def)
  then have "t = rev u @ rev (takeWhile P (rev t))"
    by (metis rev_append rev_rev_ident)
  moreover have "rev u \<noteq> []" using False u_def by simp
  ultimately have "hd (rev u) = hd t" "t \<noteq> []"
    by (metis hd_append2, metis append_is_Nil_conv)
  then have "\<not> P (hd (rev u))" using assms by simp
  then show ?thesis using \<open>rev u \<noteq> []\<close> unfolding u_def[symmetric]
    by (cases "rev u") auto
qed

lemma py_strip_idem: "py_strip (py_strip s) = py_strip s"
proof -
  let ?t = "dropWhile py_isspace s"
  have "?t = [] \<or> \<not> py_isspace (hd ?t)" by (metis hd_dropWhile)
  then show ?thesis
    using dropWhile_rev_hd[of ?t py_isspace] by (simp add: py_strip_def)
qed

lemma py_strip_space: "py_isspace c \<Longrightarrow> py_strip (c # s) = py_strip s"
  by (simp add: py_strip_def)

section \<open>Value cleaning: results\<close>

text \<open>
  C2 (as amended).  \<open>clean_display_value\<close> drops every comma-separated component that
  contains \<open>/\<close>, trims the remaining components and rejoins them with \<open>", "\<close>.  The
  empty input gives \<open>"N/A"\<close>.  When every component contains \<open>/\<close> nothing is kept and
  the function returns its input unchanged: \<open>clean_display_value("354/492")\<close> is
  \<open>"354/492"\<close>.  The other two examples are as the specification has them.
\<close>

theorem clean_display_value_policy:
  "clean_display_value ''354/492, 18 TD'' = ''18 TD''
   \<and> clean_display_value [] = ''N/A''
   \<and> clean_display_value ''354/492'' = ''354/492''
   \<and> (val \<noteq> [] \<and> (\<forall>p \<in> set (py_split CHR '','' val). CHR ''/'' \<in> set p)
        \<longrightarrow> clean_display_value val = val)
   \<and> (val \<noteq> [] \<and> (\<exists>p \<in> set (py_split CHR '','' val). CHR ''/'' \<notin> set p)
        \<longrightarrow> clean_display_value val =
            py_join '', '' (map py_strip
              (filter (\<lambda>p. CHR ''/'' \<notin> set p) (py_split CHR '','' val))))"
proof -
  have e1: "clean_display_value ''354/492, 18 TD'' = ''18 TD''"
    by (simp add: clean_display_value_def py_strip_def py_isspace_def)
  have e2: "clean_display_value [] = ''N/A''"
    by (simp add: clean_display_value_def)
  have e3: "clean_display_value ''354/492'' = ''354/492''"
    by (simp add: clean_display_value_def)
  have g1: "val \<noteq> [] \<and> (\<forall>p \<in> set (py_split CHR '','' val). CHR ''/'' \<in> set p)
        \<longrightarrow> clean_display_value val = val"
    by (auto simp: clean_display_value_def Let_def filter_empty_conv)
  have g2: "val \<noteq> [] \<and> (\<exists>p \<in> set (py_split CHR '','' val). CHR ''/'' \<notin> set p)
        \<longrightarrow> clean_display_value val =
            py_join '', '' (map py_strip
              (filter (\<lambda>p. CHR ''/'' \<notin> set p) (py_split CHR '','' val)))"
    by (auto simp: clean_display_value_def Let_def filter_empty_conv)
  from e1 e2 e3 g1 g2 show ?thesis by blast
qed

theorem clean_display_value_policy_witness:
  "py_split CHR '','' ''12/20, 3 REB , 40%'' = [''12/20'', '' 3 REB '', '' 40%'']
   \<and> clean_display_value ''12/20, 3 REB , 40%'' = ''3 REB, 40%''
   \<and> py_split CHR '','' ''1/2,3/4'' = [''1/2'', ''3/4'']
   \<and> clean_display_value ''1/2,3/4'' = ''1/2,3/4''"
proof -
  have s1: "py_split CHR '','' ''12/20, 3 REB , 40%'' = [''12/20'', '' 3 REB '', '' 40%'']"
    by simp
  have s2: "py_split CHR '','' ''1/2,3/4'' = [''1/2'', ''3/4'']"
    by simp
  have r1: "py_join '', '' (map py_strip (filter (\<lambda>p. CHR ''/'' \<notin> set p)
              [''12/20'', '' 3 REB '', '' 40%''])) = ''3 REB, 40%''"
    by (simp add: py_strip_def py_isspace_def)
  from clean_display_value_policy [of "''12/20, 3 REB , 40%''"]
  have c1: "clean_display_value ''12/20, 3 REB , 40%'' = ''3 REB, 40%''"
    unfolding s1 using r1 by simp
  from clean_display_value_policy [of "''1/2,3/4''"]
  have c2: "clean_display_value ''1/2,3/4'' = ''1/2,3/4''"
    unfolding s2 by simp
  from s1 s2 c1 c2 show ?thesis by blast
qed

text \<open>The specification's third example does not hold of the code.\<close>

theorem clean_display_value_all_ratio_counterexample:
  "clean_display_value ''354/492'' \<noteq> ''N/A''"
  by (simp add: clean_display_value_def)

text \<open>
  C10 (as amended).  \<open>clean_display_value\<close> is idempotent on every input whose cleaned
  value is not the empty string.
\<close>

theorem clean_display_value_idem:
  assumes nonempty: "clean_display_value s \<noteq> []"
  shows "clean_display_value (clean_display_value s) = clean_display_value s"
proof (cases "s = []")
  case True
  then show ?thesis by (simp add: clean_display_value_def)
next
  case False
  define kept where "kept = filter (\<lambda>p. CHR ''/'' \<notin> set p) (py_split CHR '','' s)"
  define cs where "cs = map py_strip kept"
  show ?thesis
  proof (cases "cs = []")
    case True
    then have "clean_display_value s = s"
      using False by (simp add: clean_display_value_def cs_def kept_def)
    then show ?thesis by simp
  next
    case ne: False
    have r: "clean_display_value s = py_join '', '' cs"
      using False ne by (simp add: clean_display_value_def cs_def kept_def Let_def)
    have nocomma: "\<forall>p \<in> set cs. CHR '','' \<notin> set p"
      using py_split_no_sep py_strip_subset unfolding cs_def kept_def by fastforce
    have noslash: "\<forall>p \<in> set cs. CHR ''/'' \<notin> set p"
      using py_strip_subset unfolding cs_def kept_def by fastforce
    have stripped: "\<forall>p \<in> set cs. py_strip p = p"
      unfolding cs_def by (auto simp: py_strip_idem)
    define r where "r = py_join '', '' cs"
    have rne: "r \<noteq> []" using nonempty r by (simp add: r_def)
    have sp: "py_split CHR '','' r = hd cs # map ((@) '' '') (tl cs)"
      unfolding r_def using py_split_join[OF ne nocomma, of "'' ''"] by simp
    have f: "filter (\<lambda>p. CHR ''/'' \<notin> set p) (hd cs # map ((@) '' '') (tl cs))
               = hd cs # map ((@) '' '') (tl cs)"
      using noslash ne by (cases cs) (auto simp: filter_id_conv)
    have m: "map py_strip (hd cs # map ((@) '' '') (tl cs)) = cs"
      using stripped ne by (cases cs) (auto simp: py_strip_space py_isspace_def map_idI)
    have "clean_display_value r = r"
      unfolding clean_display_value_def Let_def sp f m using ne rne by (simp add: r_def)
    then show ?thesis by (simp add: r r_def)
  qed
qed

theorem clean_display_value_idem_witness:
  "clean_display_value '' 7/9 , 22 AST,4 REB '' \<noteq> []
   \<and> clean_display_value (clean_display_value '' 7/9 , 22 AST,4 REB '') = ''22 AST, 4 REB''"
  using clean_display_value_idem [of "'' 7/9 , 22 AST,4 REB ''"]
  by (simp add: clean_display_value_def py_strip_def py_isspace_def)

text \<open>
  A value of blanks only is cleaned to the empty string, and the empty string to
  \<open>"N/A"\<close>: a second application changes the result.
\<close>

theorem clean_display_value_idem_counterexample:
  "clean_display_value (clean_display_value '' '') \<noteq> clean_display_value '' ''"
  by (simp add: clean_display_value_def py_strip_def py_isspace_def)

section \<open>Deduplication\<close>

lemma dict_set_keys:
  "map fst (dict_set d k v) = (if k \<in> set (map fst d) then map fst d else map fst d @ [k])"
  by (induction d) force+

lemma dict_set_key_set: "fst ` set (dict_set d k v) = insert k (fst ` set d)"
  using dict_set_keys[of d k v, THEN arg_cong, of set] by (auto split: if_splits)

lemma dict_set_distinct: "distinct (map fst d) \<Longrightarrow> distinct (map fst (dict_set d k v))"
  by (simp add: dict_set_keys)

lemma map_of_dict_set: "map_of (dict_set d k v) = (map_of d)(k \<mapsto> v)"
  by (induction d) (auto simp: fun_eq_iff)

lemma dict_set_values: "(k', v') \<in> set (dict_set d k v) \<Longrightarrow> (k', v') = (k, v) \<or> (k', v') \<in> set d"
  by (induction d) (auto split: if_splits)

lemma fold_dict_distinct:
  "distinct (map fst d) \<Longrightarrow> distinct (map fst (fold (\<lambda>r d. dict_set d (f r) r) rs d))"
  by (induction rs arbitrary: d) (auto simp: dict_set_distinct)

lemma fold_dict_keys:
  "set (map fst (fold (\<lambda>r d. dict_set d (f r) r) rs d)) = set (map fst d) \<union> f ` set rs"
proof (induction rs arbitrary: d)
  case Nil then show ?case by simp
next
  case (Cons r rs)
  have "set (map fst (fold (\<lambda>r d. dict_set d (f r) r) rs (dict_set d (f r) r)))
        = set (map fst (dict_set d (f r) r)) \<union> f ` set rs" by (rule Cons)
  then show ?case by (simp add: dict_set_key_set)
qed

lemma last_filter_Cons:
  "k \<in> f ` set rs \<Longrightarrow> last (filter (\<lambda>x. f x = k) (r # rs)) = last (filter (\<lambda>x. f x = k) rs)"
proof -
  assume "k \<in> f ` set rs"
  then have "filter (\<lambda>x. f x = k) rs \<noteq> []" by (auto simp: filter_empty_conv)
  then show ?thesis by simp
qed

lemma fold_dict_map_of:
  "map_of (fold (\<lambda>r d. dict_set d (f r) r) rs d) k =
     (if k \<in> f ` set rs then Some (last (filter (\<lambda>r. f r = k) rs)) else map_of d k)"
proof (induction rs arbitrary: d)
  case Nil then show ?case by simp
next
  case (Cons r rs)
  show ?case
  proof (cases "k \<in> f ` set rs")
    case True
    then show ?thesis using last_filter_Cons[OF True] by (simp add: Cons)
  next
    case False
    then have "filter (\<lambda>x. f x = k) rs = []" by (auto simp: filter_empty_conv)
    then show ?thesis using False by (auto simp: Cons map_of_dict_set)
  qed
qed

lemma fold_dict_inv:
  "\<forall>kv \<in> set d. f (snd kv) = fst kv
   \<Longrightarrow> \<forall>kv \<in> set (fold (\<lambda>r d. dict_set d (f r) r) rs d). f (snd kv) = fst kv"
proof (induction rs arbitrary: d)
  case Nil then show ?case by simp
next
  case (Cons r rs)
  have "\<forall>kv \<in> set (dict_set d (f r) r). f (snd kv) = fst kv"
    using Cons.prems dict_set_values[of _ _ d "f r" r] by fastforce
  from Cons.IH[OF this] show ?case by simp
qed

lemma unique_records_props:
  "distinct (map rec_id (unique_records rs))
   \<and> set (map rec_id (unique_records rs)) = set (map rec_id rs)
   \<and> (\<forall>r \<in> set (unique_records rs). r = last (filter (\<lambda>x. rec_id x = rec_id r) rs))"
proof -
  define d where "d = fold (\<lambda>r d. dict_set d (rec_id r) r) rs []"
  have inv: "\<forall>kv \<in> set d. rec_id (snd kv) = fst kv"
    unfolding d_def using fold_dict_inv[of "[]" rec_id rs] by simp
  then have keys: "map (rec_id \<circ> snd) d = map fst d" by simp
  have dist: "distinct (map fst d)"
    unfolding d_def using fold_dict_distinct[of "[]" rec_id rs] by simp
  have ks: "set (map fst d) = set (map rec_id rs)"
    unfolding d_def using fold_dict_keys[of rec_id rs "[]"] by simp
  have last: "r = last (filter (\<lambda>x. rec_id x = rec_id r) rs)" if "r \<in> set (map snd d)" for r
  proof -
    from that obtain k where kr: "(k, r) \<in> set d" by auto
    with inv have k: "k = rec_id r" by auto
    from kr dist have "map_of d k = Some r" by simp
    moreover have "k \<in> set (map fst d)" using kr by force
    then have "k \<in> rec_id ` set rs" using ks by simp
    ultimately show ?thesis
      unfolding d_def using fold_dict_map_of[of rec_id rs "[]" k] k by simp
  qed
  have d1: "distinct (map rec_id (map snd d))"
    by (simp only: map_map keys dist)
  have d2: "set (map rec_id (map snd d)) = set (map rec_id rs)"
    by (simp only: map_map keys ks)
  show ?thesis
    unfolding unique_records_def d_def[symmetric] using d1 d2 last by blast
qed

text \<open>
  C5.  Let \<open>all_records\<close> be the records assembled from the files, in batch order, and
  let there be at least one.  Then the run hands the store the batch
  \<open>unique_records all_records\<close>; no two records of the batch have the same identifier,
  the identifiers of the batch are those of \<open>all_records\<close>, and every record of the
  batch is the last record of \<open>all_records\<close> with its identifier.
\<close>

theorem run_ingestion_last_write_wins:
  assumes "map_r (ingest_file files) data_files = Inr per_file"
    and "concat per_file \<noteq> []"
  shows "run_ingestion files = Inr (Some (unique_records (concat per_file)))
     \<and> distinct (map rec_id (unique_records (concat per_file)))
     \<and> set (map rec_id (unique_records (concat per_file))) = set (map rec_id (concat per_file))
     \<and> (\<forall>r \<in> set (unique_records (concat per_file)).
           r = last (filter (\<lambda>x. rec_id x = rec_id r) (concat per_file)))"
proof -
  have "run_ingestion files = Inr (Some (unique_records (concat per_file)))"
    using assms by (simp add: run_ingestion_def)
  then show ?thesis using unique_records_props [of "concat per_file"] by blast
qed

text \<open>
  Two articles with the identifier \<open>doc-7\<close> and different texts: the batch has one
  record for \<open>doc-7\<close>, the second.
\<close>

theorem run_ingestion_last_write_wins_witness:
  "map_sum id (map (map (\<lambda>r. (rec_id r, chunk_text r))))
       (map_r (ingest_file dup_files) data_files)
     = Inr [[(''doc-7'', ''NEWS: A. first''), (''doc-7'', ''NEWS: A. second'')], [], [], []]
   \<and> map_sum id (map_option (map (\<lambda>r. (rec_id r, chunk_text r)))) (run_ingestion dup_files)
     = Inr (Some [(''doc-7'', ''NEWS: A. second'')])"
proof -
  let ?mk = "\<lambda>a t. \<lparr>sport = ''nba'', content_type = ''news'', content_hash = content_hash_of a,
      source_file = ''nba-news.json'', teams = {}, athletes = {}, headline = Some ''A'',
      event_date = None, status = Some ''news'', scores = [], team_stats = None,
      rec_id = ''doc-7'', chunk_text = t, performers_json = ''[]'', context_json = None\<rparr>"
  let ?pf = "[[?mk article_a ''NEWS: A. first'', ?mk article_b ''NEWS: A. second''], [], [], []]"
  have pf: "map_r (ingest_file dup_files) data_files = Inr ?pf"
    by (simp add: data_files_def ingest_file_def dup_files_def meta_defs)
       (simp add: article_a_def article_b_def)
  have ne: "concat ?pf \<noteq> []" by simp
  from run_ingestion_last_write_wins [OF pf ne]
  have "run_ingestion dup_files = Inr (Some (unique_records (concat ?pf)))" by blast
  then have "map_sum id (map_option (map (\<lambda>r. (rec_id r, chunk_text r)))) (run_ingestion dup_files)
     = Inr (Some [(''doc-7'', ''NEWS: A. second'')])"
    by (simp add: unique_records_def)
  with pf show ?thesis by simp
qed

section \<open>Retrieval\<close>

text \<open>
  C9.  \<open>search\<close> returns one result for every hit of the response, in the order of the
  hits.  Where the stored \<open>performers\<close> of a hit is a text that \<open>json.loads\<close> rejects,
  the result has the empty list for it; where the stored \<open>context\<close> is such a text, the
  empty dictionary.  The other entries of the result are those of the hit.
\<close>

theorem search_malformed_field:
  assumes "i < length hits" and "hit_fields (hits ! i) = Some flds"
  shows "length (search loads (Inr hits)) = length hits
     \<and> (\<forall>s. map_of flds ''performers'' = Some (JStr s) \<and> loads s = None
            \<longrightarrow> res_performers (search loads (Inr hits) ! i) = JArr [])
     \<and> (\<forall>s. map_of flds ''context'' = Some (JStr s) \<and> loads s = None
            \<longrightarrow> res_context (search loads (Inr hits) ! i) = JObj [])
     \<and> res_score (search loads (Inr hits) ! i) = hit_score (hits ! i)
     \<and> res_text (search loads (Inr hits) ! i) = field_get flds ''chunk_text''
     \<and> res_headline (search loads (Inr hits) ! i) = field_get flds ''headline''
     \<and> res_date (search loads (Inr hits) ! i) = field_get flds ''event_date''"
  using assms by (simp add: search_def result_of_hit_def load_field_def)

theorem search_malformed_field_witness:
  "search (\<lambda>s. if s = ''[]'' then Some (JArr []) else None)
     (Inr [\<lparr>hit_score = Some (1::nat),
            hit_fields = Some [(''chunk_text'', JStr ''NEWS: A. first''),
                               (''performers'', JStr ''[{''), (''context'', JStr ''oops'')]\<rparr>])
   = [\<lparr>res_score = Some 1, res_text = JStr ''NEWS: A. first'', res_headline = JNull,
        res_date = JNull, res_performers = JArr [], res_context = JObj []\<rparr>]"
proof -
  let ?loads = "\<lambda>s. if s = ''[]'' then Some (JArr []) else None"
  let ?flds = "[(''chunk_text'', JStr ''NEWS: A. first''),
                (''performers'', JStr ''[{''), (''context'', JStr ''oops'')]"
  let ?hits = "[\<lparr>hit_score = Some (1::nat), hit_fields = Some ?flds\<rparr>]"
  have i: "0 < length ?hits" by simp
  have f: "hit_fields (?hits ! 0) = Some ?flds" by simp
  have p: "map_of ?flds ''performers'' = Some (JStr ''[{'') \<and> ?loads ''[{'' = None" by simp
  have c: "map_of ?flds ''context'' = Some (JStr ''oops'') \<and> ?loads ''oops'' = None" by simp
  from search_malformed_field [OF i f, of ?loads] p c
  have "length (search ?loads (Inr ?hits)) = 1
     \<and> res_performers (search ?loads (Inr ?hits) ! 0) = JArr []
     \<and> res_context (search ?loads (Inr ?hits) ! 0) = JObj []"
    by (metis One_nat_def length_Cons list.size(3))
  then show ?thesis
    by (simp add: search_def result_of_hit_def load_field_def field_get_def)
qed

section \<open>The stable identifier\<close>








section \<open>The content hash\<close>

lemma list_all2_insort_key:
  assumes "list_all2 R xs zs" and "R x z"
    and "\<And>a b. R a b \<Longrightarrow> f a = f b"
  shows "list_all2 R (insort_key f x xs) (insort_key f z zs)"
  using assms(1)
proof (induction rule: list_all2_induct)
  case Nil
  then show ?case using assms(2) by simp
next
  case (Cons a xs b zs)
  then show ?case using assms(2,3) by auto
qed

lemma list_all2_sort_key:
  assumes "list_all2 R xs zs" and "\<And>a b. R a b \<Longrightarrow> f a = f b"
  shows "list_all2 R (sort_key f xs) (sort_key f zs)"
  using assms(1)
proof (induction rule: list_all2_induct)
  case Nil
  then show ?case by simp
next
  case (Cons a xs b zs)
  then show ?case using list_all2_insort_key[OF Cons.IH Cons.hyps(1) assms(2)] by simp
qed

lemma sort_key_perm_distinct:
  assumes "mset zs = mset ys" and "distinct (map f zs)"
  shows "sort_key f zs = sort_key f ys"
  using assms by (intro sort_key_eq_sort_key) (auto simp: distinct_map)

lemma key_reorder_dumps:
  "key_reorder a b \<Longrightarrow> wf_json a \<Longrightarrow> json_dumps True a = json_dumps True b"
proof (induction rule: key_reorder.induct)
  case (kr_arr xs ys)
  have "map (json_dumps True) xs = map (json_dumps True) ys"
    using kr_arr.IH kr_arr.prems
    by (induction rule: list_all2_induct) auto
  then show ?case by simp
next
  case (kr_obj xs zs ys)
  let ?item = "\<lambda>kv. json_quote (fst kv) @ '': '' @ json_dumps True (snd kv)"
  let ?R = "\<lambda>a b. fst a = fst b \<and> ?item a = ?item b"
  have wfv: "\<forall>kv \<in> set xs. wf_json (snd kv)" and dist: "distinct (map fst xs)"
    using kr_obj.prems by (auto simp: list_all_iff)
  have R: "list_all2 ?R xs zs"
    using kr_obj.IH wfv by (induction rule: list_all2_induct) auto
  then have keys: "map fst xs = map fst zs"
    by (induction rule: list_all2_induct) auto
  have "list_all2 ?R (sort_key fst xs) (sort_key fst zs)"
    using R by (rule list_all2_sort_key) simp
  then have "map ?item (sort_key fst xs) = map ?item (sort_key fst zs)"
    by (induction rule: list_all2_induct) auto
  moreover have "sort_key fst zs = sort_key fst ys"
    using kr_obj.hyps dist keys by (intro sort_key_perm_distinct) simp_all
  ultimately show ?case by simp
qed simp_all

lemma extract_smart_metadata_hash:
  "extract_smart_metadata raw filename sid = Inr m \<Longrightarrow> content_hash m = content_hash_of raw"
  by (auto simp: extract_smart_metadata_def make_SportsMetadata_def Let_def bind_r_eq_Inr
           split: if_splits)

text \<open>
  C7.  If \<open>b\<close> is the record \<open>a\<close> with the keys of its dictionaries, at any depth, in
  another order, then the two have the same \<open>content_hash\<close>: the digest is taken of
  the serialisation with sorted keys, which is the same text for both.
\<close>

theorem content_hash_key_order:
  assumes "key_reorder a b" and "wf_json a"
  shows "content_hash_of a = content_hash_of b
     \<and> (extract_smart_metadata a filename s = Inr m
          \<and> extract_smart_metadata b filename' s' = Inr m'
        \<longrightarrow> content_hash m = content_hash m')"
  using key_reorder_dumps [OF assms] extract_smart_metadata_hash [of a filename s m]
    extract_smart_metadata_hash [of b filename' s' m']
  by (simp add: content_hash_of_def)

theorem content_hash_key_order_witness:
  "key_reorder event_c event_c_reordered
   \<and> wf_json event_c
   \<and> event_c \<noteq> event_c_reordered
   \<and> content_hash_of event_c = content_hash_of event_c_reordered
   \<and> map_sum id content_hash (extract_smart_metadata event_c ''nba-score.json'' ''doc-9'')
       = Inr (content_hash_of event_c)
   \<and> map_sum id content_hash (extract_smart_metadata event_c_reordered ''nba-score.json'' ''doc-9'')
       = Inr (content_hash_of event_c)"
proof -
  let ?t = "[(''state'', JStr ''pre''), (''detail'', JStr ''Sched'')]"
  let ?t' = "[(''detail'', JStr ''Sched''), (''state'', JStr ''pre'')]"
  have t: "key_reorder (JObj ?t) (JObj ?t')"
    by (rule kr_obj [where zs = ?t]) (simp_all add: key_reorder.intros)
  have st: "key_reorder (JObj [(''type'', JObj ?t)]) (JObj [(''type'', JObj ?t')])"
    by (rule kr_obj [where zs = "[(''type'', JObj ?t')]"]) (simp_all add: t)
  have kr: "key_reorder event_c event_c_reordered"
    unfolding event_c_def event_c_reordered_def
    by (rule kr_obj [where zs = "[(''id'', JStr ''9''),
          (''status'', JObj [(''type'', JObj ?t')]), (''name'', JStr ''A at B'')]"])
       (simp_all add: st key_reorder.intros)
  have wf: "wf_json event_c" by (simp add: event_c_def)
  have ne: "event_c \<noteq> event_c_reordered" by (simp add: event_c_def event_c_reordered_def)
  from content_hash_key_order [OF kr wf]
  have h: "content_hash_of event_c = content_hash_of event_c_reordered" by blast
  have m1: "map_sum id content_hash (extract_smart_metadata event_c ''nba-score.json'' ''doc-9'')
       = Inr (content_hash_of event_c)"
    by (simp add: meta_defs parse_defs) (simp add: event_c_def)
  have m2: "map_sum id content_hash
       (extract_smart_metadata event_c_reordered ''nba-score.json'' ''doc-9'')
       = Inr (content_hash_of event_c_reordered)"
    by (simp add: meta_defs parse_defs) (simp add: event_c_reordered_def)
  from kr wf ne h m1 m2 show ?thesis by simp
qed

section \<open>The form of the synthesized text\<close>

lemma map_r_eq_Inr: "map_r f xs = Inr ys \<longleftrightarrow> list_all2 (\<lambda>x y. f x = Inr y) xs ys"
proof (induction xs arbitrary: ys)
  case Nil
  then show ?case by auto
next
  case (Cons x xs)
  show ?case
    by (cases ys) (auto simp: bind_r_eq_Inr Cons)
qed






end
